theory Spec2Isabelle
  imports Complex_Main "HOL-Library.AList"
begin

section \<open>PanStateLogic: the state logic of the observatory controller\<close>

text \<open>
  A shallow embedding of \<^verbatim>\<open>src/panoptes/state/logic.py\<close>. The class is a mixin: the
  observatory, the mount, the scheduler, the weather station, the image routines and the
  asyncio event loop are collaborators that the file only calls. A call of a collaborator is
  a field of the record \<open>env\<close> holding what the call returns, or the exception it raises;
  what the object itself changes (its pending offset, the callbacks it hands to the event
  loop, the transitions it fires, the commands it sends to the mount) is the record \<open>pocs\<close>,
  passed in and returned. Logging and narration (\<^verbatim>\<open>self.logger\<close>, \<^verbatim>\<open>self.say\<close>) change
  nothing that the logic reads and are left out.
\<close>

subsection \<open>Exceptions\<close>

datatype error =
    AssertionError
  | AttributeError
  | CancelledError
  | IndexError
  | KeyError
  | TypeError
  | UnboundLocalError
  | UnitConversionError
  | External string \<comment> \<open>any other exception, raised inside a collaborator\<close>

subsection \<open>Quantities with units\<close>

text \<open>
  The astropy quantities of the source, over the rationals instead of floating point. A unit
  is a scale against the base units (millisecond, arcsecond, pixel) and the exponents of the
  three dimensions; \<^verbatim>\<open>q.to(u)\<close> rescales and raises when the dimensions differ.
\<close>

record unit =
  uscale :: rat
  utime :: int
  uangle :: int
  upixel :: int

record quantity =
  qvalue :: rat
  qunit :: unit

definition ms :: unit where
  "ms = \<lparr>uscale = 1, utime = 1, uangle = 0, upixel = 0\<rparr>"

definition minute :: unit where
  "minute = \<lparr>uscale = 60000, utime = 1, uangle = 0, upixel = 0\<rparr>"

definition hour :: unit where
  "hour = \<lparr>uscale = 3600000, utime = 1, uangle = 0, upixel = 0\<rparr>"

definition arcsec :: unit where
  "arcsec = \<lparr>uscale = 1, utime = 0, uangle = 1, upixel = 0\<rparr>"

definition deg :: unit where
  "deg = \<lparr>uscale = 3600, utime = 0, uangle = 1, upixel = 0\<rparr>"

definition pixel :: unit where
  "pixel = \<lparr>uscale = 1, utime = 0, uangle = 0, upixel = 1\<rparr>"

definition umul :: "unit \<Rightarrow> unit \<Rightarrow> unit" where
  "umul a b = \<lparr>uscale = uscale a * uscale b, utime = utime a + utime b,
     uangle = uangle a + uangle b, upixel = upixel a + upixel b\<rparr>"

definition udiv :: "unit \<Rightarrow> unit \<Rightarrow> unit" where
  "udiv a b = \<lparr>uscale = uscale a / uscale b, utime = utime a - utime b,
     uangle = uangle a - uangle b, upixel = upixel a - upixel b\<rparr>"

definition same_dims :: "unit \<Rightarrow> unit \<Rightarrow> bool" where
  "same_dims a b = (utime a = utime b \<and> uangle a = uangle b \<and> upixel a = upixel b)"

definition quant :: "rat \<Rightarrow> unit \<Rightarrow> quantity" where
  "quant v u = \<lparr>qvalue = v, qunit = u\<rparr>"

definition qmul :: "quantity \<Rightarrow> quantity \<Rightarrow> quantity" where
  "qmul a b = quant (qvalue a * qvalue b) (umul (qunit a) (qunit b))"

definition qdiv :: "quantity \<Rightarrow> quantity \<Rightarrow> quantity" where
  "qdiv a b = quant (qvalue a / qvalue b) (udiv (qunit a) (qunit b))"

definition rescale :: "unit \<Rightarrow> quantity \<Rightarrow> quantity" where
  "rescale u q = quant (qvalue q * uscale (qunit q) / uscale u) u"

definition to_unit :: "unit \<Rightarrow> quantity \<Rightarrow> error + quantity" where
  "to_unit u q = (if same_dims (qunit q) u then Inr (rescale u q) else Inl UnitConversionError)"

definition qadd :: "quantity \<Rightarrow> quantity \<Rightarrow> error + quantity" where
  "qadd a b =
     (if same_dims (qunit b) (qunit a)
      then Inr (quant (qvalue a + qvalue (rescale (qunit a) b)) (qunit a))
      else Inl UnitConversionError)"

text \<open>\<^verbatim>\<open>(24 * u.hour).to(u.minute) / (360 * u.deg).to(u.arcsec)\<close>\<close>

definition sidereal_rate :: quantity where
  "sidereal_rate = qdiv (rescale minute (quant 24 hour)) (rescale arcsec (quant 360 deg))"

subsection \<open>The domain objects read by the handlers\<close>

type_synonym offset_dict = "(string \<times> quantity) list"

text \<open>
  The dictionaries of the source keep only the keys this file reads; a key that is absent is
  \<open>None\<close>. An image that is \<open>None\<close> or an empty dictionary is falsy in Python: as
  \<open>reference_image\<close> of a target it is \<open>None\<close> here.
\<close>

record solved_info =
  pixel_scale :: "quantity option"
  rotation :: "quantity option"

record image =
  fits_file :: "string option"
  img_file :: "string option"
  solved :: "solved_info option"

record exposure =
  images :: "image list"

record observation =
  current_exposure :: "exposure option"
  complete :: bool

record target =
  name :: string
  current_visit :: "observation option"
  reference_image :: "image option"

subsection \<open>The collaborators\<close>

text \<open>
  Each field is the outcome of the call of that name during one handler invocation: \<open>Inl e\<close>
  (or \<open>Some e\<close> for a call whose value is not used) when the call raises \<open>e\<close>. Image data is
  a number standing for the array; \<open>None\<close> is Python's \<open>None\<close>.
\<close>

record env =
  twilight_horizon :: "rat option"
  is_night :: "rat \<Rightarrow> error + bool"
  weather_is_safe :: "error + bool"
  get_target :: "error + target option"
  target_is_up :: "target \<Rightarrow> error + bool"
  set_target_coordinates :: "target \<Rightarrow> error + bool"
  slew_to_target :: "error option"
  serial_query :: "string \<Rightarrow> rat \<Rightarrow> error option"
  observe :: "error + string list"
  home_and_park :: "error option"
  current_target :: "target option"
  fits_headers :: "target \<Rightarrow> error option"
  process_images :: "exposure \<Rightarrow> error option"
  read_image_data :: "string option \<Rightarrow> error + nat option"
  measure_offset :: "nat option \<Rightarrow> nat option \<Rightarrow> error + rat \<times> rat"
  get_ra_dec_deltas ::
    "quantity \<Rightarrow> quantity \<Rightarrow> quantity \<Rightarrow> quantity \<Rightarrow> quantity \<Rightarrow> error + quantity \<times> quantity"
  solve_offset :: "solved_info \<Rightarrow> solved_info \<Rightarrow> error + offset_dict"

subsection \<open>The object and what it does to the outside\<close>

text \<open>
  The transition triggers (\<^verbatim>\<open>park\<close>, \<^verbatim>\<open>schedule\<close>, \<^verbatim>\<open>track\<close>, ...) are attached to the
  object by the state machine, which is not part of this file: \<open>attrs\<close> lists the names for
  which \<^verbatim>\<open>hasattr(self, name)\<close> holds, and calling one is recorded as the event \<open>Called\<close>.
  \<open>CallLater d c\<close> is \<^verbatim>\<open>self._loop.call_later(d, c)\<close>. \<open>Wait c t\<close> is a new future, with
  the coroutine \<open>c\<close> scheduled by \<^verbatim>\<open>asyncio.ensure_future\<close> to resolve it and
  \<^verbatim>\<open>partial(self._goto_state, t)\<close> added as its done callback. \<open>SerialQuery c v\<close> is
  the command \<open>c\<close> sent to the mount by \<^verbatim>\<open>serial_query\<close>, with the number \<open>v\<close> that the
  source renders with \<^verbatim>\<open>"{:05.0f}"\<close>. Events are appended in the order they happen.
\<close>

datatype callee = Name string | Callable nat

datatype call = Bound string | Partial nat "string option"

datatype coroutine = AtPosition string | FileExists "string list" | IsSafe rat

datatype event =
    Called string
  | CallLater rat call
  | Wait coroutine string
  | SerialQuery string rat

record pocs =
  state :: string
  loop_running :: bool
  attrs :: "string list"
  simulator :: "string list option"
  state_delay :: rat
  sleep_delay :: rat
  safe_delay :: rat
  offset_info :: offset_dict
  trace :: "event list"

text \<open>
  A method that returns nothing gives \<open>Inr s'\<close>, one that returns \<open>v\<close> gives \<open>Inr (v, s')\<close>,
  and one that raises \<open>e\<close> gives \<open>Inl (e, s')\<close>: what the object did before the exception
  stays done.
\<close>

type_synonym outcome = "error \<times> pocs + pocs"

type_synonym 'a valued = "error \<times> pocs + 'a \<times> pocs"

definition emit :: "event \<Rightarrow> pocs \<Rightarrow> pocs" where
  "emit ev s = s\<lparr>trace := trace s @ [ev]\<rparr>"

text \<open>\<^verbatim>\<open>getattr(self, name)()\<close>, and \<^verbatim>\<open>self.park()\<close> for \<open>name = ''park''\<close>.\<close>

definition call_method :: "string \<Rightarrow> pocs \<Rightarrow> outcome" where
  "call_method nm s = (if nm \<in> set (attrs s) then Inr (emit (Called nm) s) else Inl (AttributeError, s))"

subsection \<open>State conditions\<close>

definition is_dark :: "env \<Rightarrow> error + bool" where
  "is_dark e = is_night e (case twilight_horizon e of None \<Rightarrow> - 18 | Some h \<Rightarrow> h)"

definition is_safe :: "env \<Rightarrow> pocs \<Rightarrow> bool valued" where
  "is_safe e s =
     (case is_dark e of
        Inl x \<Rightarrow> Inl (x, s)
      | Inr dark \<Rightarrow>
     (case weather_is_safe e of
        Inl x \<Rightarrow> Inl (x, s)
      | Inr good_weather \<Rightarrow>
     (case simulator s of
        None \<Rightarrow> Inl (KeyError, s)
      | Some sim \<Rightarrow>
          let safe = (if ''weather'' \<in> set sim then True else (dark \<and> good_weather)) in
          if \<not> safe then
            (if state s \<notin> set [''sleeping'', ''parked'', ''parking'']
             then (case call_method ''park'' s of
                     Inl x \<Rightarrow> Inl x
                   | Inr s' \<Rightarrow> Inr (safe, s'))
             else Inr (safe, s))
          else Inr (safe, s))))"

text \<open>
  \<open>event_data\<close> is \<open>None\<close> when the method is called without one, and \<open>Some n\<close> for an
  event whose \<^verbatim>\<open>event.name\<close> is \<open>n\<close>.
\<close>

definition check_safety :: "string option \<Rightarrow> env \<Rightarrow> pocs \<Rightarrow> bool valued" where
  "check_safety event_data e s =
     (case event_data of
        None \<Rightarrow> is_safe e s
      | Some n \<Rightarrow> if n = ''park'' then Inr (True, s) else is_safe e s)"

subsection \<open>Convenience methods\<close>

text \<open>
  The first argument of \<^verbatim>\<open>goto\<close> is a string (\<open>Name\<close>) or some other callable
  (\<open>Callable\<close>, numbered). \<^verbatim>\<open>partial(method, args)\<close> raises \<open>TypeError\<close> when
  \<open>method\<close> is not callable, which is the case of a string that names no attribute.
\<close>

definition goto :: "callee \<Rightarrow> string option \<Rightarrow> pocs \<Rightarrow> outcome" where
  "goto method args s =
     (if loop_running s then
        (case method of
           Name nm \<Rightarrow>
             if nm \<in> set (attrs s) then Inr (emit (CallLater (state_delay s) (Bound nm)) s)
             else Inl (TypeError, s)
         | Callable f \<Rightarrow> Inr (emit (CallLater (state_delay s) (Partial f args)) s))
      else Inr s)"

definition wait_until :: "coroutine \<Rightarrow> string \<Rightarrow> pocs \<Rightarrow> outcome" where
  "wait_until method transition s =
     (if loop_running s then Inr (emit (Wait method transition) s) else Inr s)"

definition wait_until_mount :: "string \<Rightarrow> string \<Rightarrow> pocs \<Rightarrow> outcome" where
  "wait_until_mount position transition s =
     (if loop_running s then wait_until (AtPosition position) transition s else Inr s)"

text \<open>
  Calling the generator-based coroutine \<^verbatim>\<open>self._file_exists(filenames, future)\<close> only
  creates it; its body runs when the event loop steps the task. Nothing inside the
  \<^verbatim>\<open>try\<close> raises, and the \<^verbatim>\<open>except\<close> branch only logs.
\<close>

definition wait_until_files_exist :: "string list \<Rightarrow> string \<Rightarrow> pocs \<Rightarrow> outcome" where
  "wait_until_files_exist filenames transition s =
     (if loop_running s then Inr (emit (Wait (FileExists filenames) transition) s) else Inr s)"

definition wait_until_safe :: "rat option \<Rightarrow> pocs \<Rightarrow> outcome" where
  "wait_until_safe delay s =
     (if loop_running s then
        (let d = (case delay of None \<Rightarrow> safe_delay s | Some x \<Rightarrow> x)
         in wait_until (IsSafe d) ''get_ready'' s)
      else Inr s)"

subsection \<open>Private methods\<close>

text \<open>
  The body of \<^verbatim>\<open>_file_exists\<close>, for a list of file names (on a list, \<^verbatim>\<open>listify\<close> is the
  identity). The file system is read once per check: the second argument lists what
  \<^verbatim>\<open>os.path.exists\<close> answers at the successive checks, and a list that runs out leaves the
  coroutine suspended in its sleep. The number returned counts the sleeps.
\<close>

datatype 'a step = Raised error | SetResult 'a | Suspended

fun file_exists_loop :: "string list \<Rightarrow> (string \<Rightarrow> bool) list \<Rightarrow> nat \<Rightarrow> string list step \<times> nat" where
  "file_exists_loop filenames [] n = (Suspended, n)"
| "file_exists_loop filenames (fs # rest) n =
     (if list_all fs filenames then (SetResult filenames, n)
      else file_exists_loop filenames rest (Suc n))"

definition file_exists :: "string list \<Rightarrow> (string \<Rightarrow> bool) list \<Rightarrow> string list step \<times> nat" where
  "file_exists filenames checks =
     (if filenames = [] then (Raised AssertionError, 0) else file_exists_loop filenames checks 0)"

text \<open>
  A future is pending, holds a result, or is cancelled. \<^verbatim>\<open>future.result()\<close> of a cancelled
  future raises \<open>CancelledError\<close>, which is what the logging line of the \<^verbatim>\<open>else\<close> branch
  of \<^verbatim>\<open>_goto_state\<close> evaluates.
\<close>

datatype 'a future = FPending | FDone 'a | FCancelled

definition cancelled :: "'a future \<Rightarrow> bool" where
  "cancelled f = (case f of FCancelled \<Rightarrow> True | _ \<Rightarrow> False)"

definition goto_state :: "string \<Rightarrow> 'a future \<Rightarrow> pocs \<Rightarrow> outcome" where
  "goto_state st future s =
     (if \<not> cancelled future then call_method st s else Inl (CancelledError, s))"

text \<open>
  What the event loop does with a wait on files once its task has run against the given
  checks: the done callback runs when the coroutine has set the result; an exception ends
  the task and leaves the future pending, so the callback never runs.
\<close>

definition file_wait :: "string \<Rightarrow> string list \<Rightarrow> (string \<Rightarrow> bool) list \<Rightarrow> pocs \<Rightarrow> outcome" where
  "file_wait transition filenames checks s =
     (case fst (file_exists filenames checks) of
        SetResult v \<Rightarrow> goto_state transition (FDone v) s
      | Raised x \<Rightarrow> Inr s
      | Suspended \<Rightarrow> Inr s)"

subsection \<open>State logic\<close>

definition on_enter_ready :: "env \<Rightarrow> pocs \<Rightarrow> outcome" where
  "on_enter_ready e s = wait_until_mount ''is_home'' ''schedule'' s"

text \<open>
  When \<^verbatim>\<open>get_target\<close> raises, the \<^verbatim>\<open>except\<close> branch logs and goes on with \<open>target\<close>
  never assigned: the test \<^verbatim>\<open>target is not None\<close> then raises \<open>UnboundLocalError\<close>.
\<close>

definition scheduling_next_state :: "env \<Rightarrow> target option \<Rightarrow> error + string" where
  "scheduling_next_state e tgt =
     (case tgt of
        None \<Rightarrow> Inr ''park''
      | Some t \<Rightarrow>
          (case target_is_up e t of
             Inl x \<Rightarrow> Inl x
           | Inr up \<Rightarrow>
               if up then
                 (case set_target_coordinates e t of
                    Inl x \<Rightarrow> Inl x
                  | Inr has_target \<Rightarrow> if has_target then Inr ''slew_to_target'' else Inr ''park'')
               else Inr ''park''))"

definition on_enter_scheduling :: "env \<Rightarrow> pocs \<Rightarrow> outcome" where
  "on_enter_scheduling e s =
     (case get_target e of
        Inl x \<Rightarrow> Inl (UnboundLocalError, s)
      | Inr tgt \<Rightarrow>
          (case scheduling_next_state e tgt of
             Inl x \<Rightarrow> Inl (x, s)
           | Inr next_state \<Rightarrow> goto (Name next_state) None s))"

definition on_enter_slewing :: "env \<Rightarrow> pocs \<Rightarrow> outcome" where
  "on_enter_slewing e s =
     (case slew_to_target e of
        Some x \<Rightarrow> goto (Name ''park'') None s
      | None \<Rightarrow>
          (case wait_until_mount ''is_tracking'' ''track'' s of
             Inl (x, s') \<Rightarrow> goto (Name ''park'') None s'
           | Inr s' \<Rightarrow> Inr s'))"

text \<open>
  \<^verbatim>\<open>offset_info.get('ms_offset', 0)\<close>: without the key the value is the number 0, and
  \<^verbatim>\<open>0 > 0\<close> is false. A quantity compares with 0 by its value, whatever its unit.
\<close>

definition on_enter_tracking :: "env \<Rightarrow> pocs \<Rightarrow> outcome" where
  "on_enter_tracking e s =
     (case map_of (offset_info s) ''ms_offset'' of
        None \<Rightarrow> goto (Name ''observe'') None s
      | Some ms_offset \<Rightarrow>
          if qvalue ms_offset > 0 then
            (case qadd ms_offset (quant 250 ms) of
               Inl x \<Rightarrow> Inl (x, s)
             | Inr m \<Rightarrow>
                 (case serial_query e ''move_ms_east'' (qvalue m) of
                    Some x \<Rightarrow> Inl (x, s)
                  | None \<Rightarrow>
                      goto (Name ''observe'') None
                        ((emit (SerialQuery ''move_ms_east'' (qvalue m)) s)\<lparr>offset_info := []\<rparr>)))
          else goto (Name ''observe'') None s)"

definition on_enter_observing :: "env \<Rightarrow> pocs \<Rightarrow> outcome" where
  "on_enter_observing e s =
     (case observe e of
        Inl x \<Rightarrow> Inr s
      | Inr img_files \<Rightarrow>
          (case wait_until_files_exist img_files ''analyze'' s of
             Inl (x, s') \<Rightarrow> goto (Name ''park'') None s'
           | Inr s' \<Rightarrow> Inr s'))"

text \<open>
  The analysis. \<^verbatim>\<open>a.get('fits_file', a.get('img_file', None))\<close> is \<open>image_path\<close>, and
  \<^verbatim>\<open>a.get('solved', {})\<close> is \<open>solved_or_empty\<close>.
\<close>

definition image_path :: "image \<Rightarrow> string option" where
  "image_path im = (case fits_file im of Some f \<Rightarrow> Some f | None \<Rightarrow> img_file im)"

definition solved_or_empty :: "image \<Rightarrow> solved_info" where
  "solved_or_empty im =
     (case solved im of None \<Rightarrow> \<lparr>pixel_scale = None, rotation = None\<rparr> | Some i \<Rightarrow> i)"

text \<open>\<^verbatim>\<open>10.2859 * (u.arcsec / u.pixel)\<close>\<close>

definition default_pixel_scale :: quantity where
  "default_pixel_scale = quant (102859 / 10000) (udiv arcsec pixel)"

text \<open>
  The body of the inner \<^verbatim>\<open>try\<close> (the correlation): the exception that ended it, if any,
  and the dictionary \<open>offset_info\<close> as the body left it. The tuple assignment from
  \<^verbatim>\<open>measure_offset\<close> makes \<open>error\<close> a local variable of the handler, so that
  \<^verbatim>\<open>raise error.PanError(...)\<close> above it raises \<open>UnboundLocalError\<close>.
\<close>

definition correlate :: "env \<Rightarrow> image \<Rightarrow> image \<Rightarrow> error option \<times> offset_dict" where
  "correlate e ref last_image =
     (let info = solved_or_empty last_image in
      case read_image_data e (image_path ref) of
        Inl x \<Rightarrow> (Some x, [])
      | Inr d1 \<Rightarrow>
      (case read_image_data e (image_path last_image) of
        Inl x \<Rightarrow> (Some x, [])
      | Inr d2 \<Rightarrow>
      if d1 = None \<and> d2 = None then (Some UnboundLocalError, [])
      else
      (case measure_offset e d1 d2 of
        Inl x \<Rightarrow> (Some x, [])
      | Inr (shift0, shift1) \<Rightarrow>
      (let scale = (case pixel_scale info of None \<Rightarrow> default_pixel_scale | Some p \<Rightarrow> p);
           theta = (case rotation info of None \<Rightarrow> quant 0 deg | Some r \<Rightarrow> r)
       in
       case get_ra_dec_deltas e (quant shift0 pixel) (quant shift1 pixel) theta sidereal_rate scale of
         Inl x \<Rightarrow> (Some x, [])
       | Inr (delta_ra, delta_dec) \<Rightarrow>
       (let oi1 = AList.update ''delta_ra'' delta_ra [];
            oi2 = AList.update ''delta_dec'' delta_dec oi1;
            delta_ra_as = qmul scale delta_ra;
            oi3 = AList.update ''delta_ra_as'' delta_ra_as oi2
        in
        case to_unit ms (qmul delta_ra_as sidereal_rate) of
          Inl x \<Rightarrow> (Some x, oi3)
        | Inr ms_offset_ra \<Rightarrow>
        (let oi4 = AList.update ''ms_offset'' ms_offset_ra oi3;
             delta_dec_as = qmul scale delta_dec;
             oi5 = AList.update ''delta_dec_as'' delta_dec_as oi4
         in
         case to_unit ms (qmul delta_dec_as sidereal_rate) of
           Inl x \<Rightarrow> (Some x, oi5)
         | Inr ms_offset_dec \<Rightarrow> (None, AList.update ''ms_offset'' ms_offset_dec oi5)))))))"

text \<open>
  The branch \<^verbatim>\<open>if reference_image:\<close> up to the assignment of
  \<^verbatim>\<open>self.observatory.offset_info\<close>: the dictionary assigned, or the exception that leaves
  the branch before the assignment. Only an \<open>AssertionError\<close> of \<^verbatim>\<open>solve_offset\<close> is
  caught there.
\<close>

definition tracking_error :: "env \<Rightarrow> image \<Rightarrow> exposure \<Rightarrow> error + offset_dict" where
  "tracking_error e ref ex =
     (if images ex = [] then Inl IndexError
      else
        (let last_image = last (images ex) in
         case correlate e ref last_image of
           (None, oi) \<Rightarrow> Inr oi
         | (Some x, oi) \<Rightarrow>
             (case solve_offset e (solved_or_empty ref) (solved_or_empty last_image) of
                Inr solved_oi \<Rightarrow> Inr solved_oi
              | Inl y \<Rightarrow> if y = AssertionError then Inr oi else Inl y)))"

text \<open>
  The outer \<^verbatim>\<open>try\<close> of the analyzing handler: what the local variable \<open>observation\<close> is
  when the block is left (\<open>None\<close>: never assigned; \<open>Some None\<close>: assigned Python's
  \<open>None\<close>), and the object. Every exception inside the block is caught and logged.
\<close>

definition after_process_images :: "env \<Rightarrow> target \<Rightarrow> observation \<Rightarrow> pocs \<Rightarrow> pocs" where
  "after_process_images e tgt obs s =
     (case reference_image tgt of
        None \<Rightarrow> s
      | Some ref \<Rightarrow>
          (case current_exposure obs of
             None \<Rightarrow> s
           | Some ex \<Rightarrow>
               (case tracking_error e ref ex of
                  Inl x \<Rightarrow> s
                | Inr oi \<Rightarrow> s\<lparr>offset_info := oi\<rparr>)))"

definition analyzing_body :: "env \<Rightarrow> pocs \<Rightarrow> observation option option \<times> pocs" where
  "analyzing_body e s =
     (case current_target e of
        None \<Rightarrow> (None, s)
      | Some tgt \<Rightarrow>
          (case current_visit tgt of
             None \<Rightarrow> (Some None, s)
           | Some obs \<Rightarrow>
               (case fits_headers e tgt of
                  Some x \<Rightarrow> (Some (Some obs), s)
                | None \<Rightarrow>
                    (case (case current_exposure obs of
                             None \<Rightarrow> Some AttributeError
                           | Some ex \<Rightarrow> process_images e ex) of
                       Some x \<Rightarrow> (Some (Some obs), after_process_images e tgt obs s)
                     | None \<Rightarrow> (Some (Some obs), after_process_images e tgt obs s)))))"

definition on_enter_analyzing :: "env \<Rightarrow> pocs \<Rightarrow> outcome" where
  "on_enter_analyzing e s =
     (case analyzing_body e s of
        (None, s') \<Rightarrow> Inl (UnboundLocalError, s')
      | (Some None, s') \<Rightarrow> Inl (AttributeError, s')
      | (Some (Some obs), s') \<Rightarrow>
          goto (Name (if \<not> complete obs then ''adjust_tracking'' else ''schedule'')) None s')"

definition on_enter_parking :: "env \<Rightarrow> pocs \<Rightarrow> outcome" where
  "on_enter_parking e s =
     (case home_and_park e of
        Some x \<Rightarrow> Inr s
      | None \<Rightarrow>
          (case wait_until_mount ''is_parked'' ''set_park'' s of
             Inl (x, s') \<Rightarrow> Inr s'
           | Inr s' \<Rightarrow> Inr s'))"

definition parked_next_state :: "env \<Rightarrow> error + string" where
  "parked_next_state e =
     (case is_dark e of
        Inl x \<Rightarrow> Inl x
      | Inr dark \<Rightarrow>
          if dark then
            (case weather_is_safe e of
               Inl x \<Rightarrow> Inl x
             | Inr good_weather \<Rightarrow> if \<not> good_weather then Inr ''wait'' else Inr ''sleep'')
          else Inr ''sleep'')"

definition on_enter_parked :: "env \<Rightarrow> pocs \<Rightarrow> outcome" where
  "on_enter_parked e s =
     (case parked_next_state e of
        Inl x \<Rightarrow> Inl (x, s)
      | Inr next_state \<Rightarrow>
          if next_state = ''wait'' then wait_until_safe None s
          else goto (Name next_state) None s)"

definition on_enter_sleeping :: "env \<Rightarrow> pocs \<Rightarrow> outcome" where
  "on_enter_sleeping e s = Inr s"

subsection \<open>Concrete inputs\<close>

text \<open>
  An object in the state \<open>scheduling\<close> with a running event loop, the default delays and
  every trigger attached; and collaborators on a clear night: one target that is up, with a
  reference image and one exposure image, and a correlation that measures a shift of 3 and
  4 pixels and turns it into 3 pixels in right ascension and - 2 pixels in declination.
\<close>

definition example_pocs :: pocs where
  "example_pocs =
     \<lparr>state = ''scheduling'', loop_running = True,
      attrs = [''park'', ''schedule'', ''slew_to_target'', ''track'', ''adjust_tracking'',
               ''observe'', ''analyze'', ''set_park'', ''sleep'', ''get_ready''],
      simulator = Some [], state_delay = 1, sleep_delay = 7, safe_delay = 300,
      offset_info = [], trace = []\<rparr>"

definition example_image :: "string \<Rightarrow> image" where
  "example_image f = \<lparr>fits_file = Some f, img_file = None, solved = None\<rparr>"

definition example_observation :: observation where
  "example_observation =
     \<lparr>current_exposure = Some \<lparr>images = [example_image ''img_001.fits'']\<rparr>, complete = False\<rparr>"

definition example_target :: target where
  "example_target =
     \<lparr>name = ''M42'', current_visit = Some example_observation,
      reference_image = Some (example_image ''ref_000.fits'')\<rparr>"

definition example_env :: env where
  "example_env =
     \<lparr>twilight_horizon = None,
      is_night = (\<lambda>h. Inr True),
      weather_is_safe = Inr True,
      get_target = Inr (Some example_target),
      target_is_up = (\<lambda>t. Inr True),
      set_target_coordinates = (\<lambda>t. Inr True),
      slew_to_target = None,
      serial_query = (\<lambda>c v. None),
      observe = Inr [''img_001.cr2''],
      home_and_park = None,
      current_target = Some example_target,
      fits_headers = (\<lambda>t. None),
      process_images = (\<lambda>x. None),
      read_image_data = (\<lambda>p. Inr (Some 0)),
      measure_offset = (\<lambda>a b. Inr (3, 4)),
      get_ra_dec_deltas = (\<lambda>dx dy theta rate scale. Inr (quant 3 pixel, quant (- 2) pixel)),
      solve_offset = (\<lambda>a b. Inl AssertionError)\<rparr>"

text \<open>
  The same night with every call to the mount, the scheduler's visibility test, the camera,
  the darkness test, the image conversion and the reading of image data raising.
\<close>

definition failing_env :: env where
  "failing_env =
     example_env
       \<lparr>is_night := (\<lambda>h. Inl (External ''no ephemeris'')),
        target_is_up := (\<lambda>t. Inl (External ''no ephemeris'')),
        slew_to_target := Some (External ''mount timeout''),
        serial_query := (\<lambda>c v. Some (External ''mount timeout'')),
        observe := Inl (External ''camera busy''),
        home_and_park := Some (External ''mount timeout''),
        process_images := (\<lambda>x. Some (External ''conversion failed'')),
        read_image_data := (\<lambda>p. Inl (External ''unreadable''))\<rparr>"

section \<open>Properties\<close>

subsection \<open>Auxiliary facts\<close>

lemma goto_running:
  "loop_running s \<Longrightarrow> nm \<in> set (attrs s) \<Longrightarrow>
   goto (Name nm) a s = Inr (emit (CallLater (state_delay s) (Bound nm)) s)"
  by (simp add: goto_def)

lemma example_pocs_facts:
  "loop_running example_pocs" "''park'' \<in> set (attrs example_pocs)"
  "''slew_to_target'' \<in> set (attrs example_pocs)" "''schedule'' \<in> set (attrs example_pocs)"
  "''adjust_tracking'' \<in> set (attrs example_pocs)" "''observe'' \<in> set (attrs example_pocs)"
  "state_delay example_pocs = 1"
  by (simp_all add: example_pocs_def)

lemma unsafe_example:
  "is_safe (example_env\<lparr>weather_is_safe := Inr False\<rparr>) example_pocs
     = Inr (False, emit (Called ''park'') example_pocs)"
  by (simp add: is_safe_def is_dark_def call_method_def example_env_def example_pocs_def)

text \<open>The outer \<^verbatim>\<open>try\<close> of the analyzing handler changes nothing but the pending offset.\<close>

lemma after_process_images_frame:
  "after_process_images e tgt obs s =
     s\<lparr>offset_info := offset_info (after_process_images e tgt obs s)\<rparr>"
  by (simp add: after_process_images_def split: option.splits sum.splits)

lemma analyzing_body_bound:
  assumes "current_target e = Some tgt" and "current_visit tgt = Some obs"
  shows "analyzing_body e s =
     (Some (Some obs), s\<lparr>offset_info := offset_info (snd (analyzing_body e s))\<rparr>)"
  using assms after_process_images_frame [of e tgt obs s]
  by (simp add: analyzing_body_def split: option.splits)

lemma correlate_success_keys:
  assumes "correlate e r l = (None, oi)"
  shows "map fst oi = [''delta_ra'', ''delta_dec'', ''delta_ra_as'', ''ms_offset'', ''delta_dec_as'']"
  using assms
  by (auto simp: correlate_def Let_def split: sum.splits if_splits prod.splits)

lemma analyzing_writes_correlation:
  assumes "current_target e = Some tgt" and "current_visit tgt = Some obs"
    and "fits_headers e tgt = None" and "reference_image tgt = Some r"
    and "current_exposure obs = Some ex" and "images ex \<noteq> []"
    and "correlate e r (last (images ex)) = (None, oi)"
  shows "offset_info (snd (analyzing_body e s)) = oi"
  using assms
  by (simp add: analyzing_body_def after_process_images_def tracking_error_def Let_def
      split: option.splits)

lemma analyzing_keeps_failed_correlation:
  assumes "current_target e = Some tgt" and "current_visit tgt = Some obs"
    and "fits_headers e tgt = None" and "reference_image tgt = Some r"
    and "current_exposure obs = Some ex" and "images ex \<noteq> []"
    and "correlate e r (last (images ex)) = (Some x, part)"
    and "solve_offset e (solved_or_empty r) (solved_or_empty (last (images ex))) = Inl AssertionError"
  shows "offset_info (snd (analyzing_body e s)) = part"
  using assms
  by (simp add: analyzing_body_def after_process_images_def tracking_error_def Let_def
      split: option.splits)

lemma example_correlate:
  "correlate example_env (example_image ''ref_000.fits'') (example_image ''img_001.fits'') =
     (None,
      [(''delta_ra'', quant 3 pixel),
       (''delta_dec'', quant (- 2) pixel),
       (''delta_ra_as'', qmul default_pixel_scale (quant 3 pixel)),
       (''ms_offset'',
          rescale ms (qmul (qmul default_pixel_scale (quant (- 2) pixel)) sidereal_rate)),
       (''delta_dec_as'', qmul default_pixel_scale (quant (- 2) pixel))])"
  by (simp add: correlate_def example_env_def example_image_def image_path_def
      solved_or_empty_def to_unit_def same_dims_def qmul_def qdiv_def quant_def umul_def udiv_def
      default_pixel_scale_def sidereal_rate_def rescale_def pixel_def arcsec_def ms_def
      minute_def hour_def deg_def Let_def)

subsection \<open>The safety supervisor\<close>

text \<open>
  C1. Whenever \<open>is_safe\<close> returns false, the object it leaves behind is the one it found
  with a call of the \<open>park\<close> trigger appended if the state is none of \<open>sleeping\<close>,
  \<open>parked\<close>, \<open>parking\<close>, and exactly the one it found if the state is one of the three:
  the park is fired inside the call, before it returns, and never from those states.
\<close>

theorem is_safe_unsafe_parks:
  assumes "is_safe e s = Inr (False, s')"
  shows "(state s \<notin> set [''sleeping'', ''parked'', ''parking''] \<longrightarrow> s' = emit (Called ''park'') s)
       \<and> (state s \<in> set [''sleeping'', ''parked'', ''parking''] \<longrightarrow> s' = s)"
  using assms
  by (auto simp: is_safe_def call_method_def Let_def split: sum.splits option.splits if_splits)

theorem is_safe_unsafe_parks_witness:
  "is_safe (example_env\<lparr>weather_is_safe := Inr False\<rparr>) example_pocs
     = Inr (False, emit (Called ''park'') example_pocs)
   \<and> is_safe (example_env\<lparr>weather_is_safe := Inr False\<rparr>) (example_pocs\<lparr>state := ''parked''\<rparr>)
     = Inr (False, example_pocs\<lparr>state := ''parked''\<rparr>)"
proof -
  let ?e = "example_env\<lparr>weather_is_safe := Inr False\<rparr>"
  have b: "is_safe ?e (example_pocs\<lparr>state := ''parked''\<rparr>)
             = Inr (False, example_pocs\<lparr>state := ''parked''\<rparr>)"
    by (simp add: is_safe_def is_dark_def call_method_def example_env_def example_pocs_def)
  from is_safe_unsafe_parks [OF unsafe_example] is_safe_unsafe_parks [OF b] unsafe_example b
  show ?thesis by simp
qed

text \<open>
  C2. For the event \<open>park\<close>, \<open>check_safety\<close> returns true and leaves the object as it
  found it, whatever the collaborators would answer (also when asking them would raise);
  for any other event, and without an event, it is \<open>is_safe\<close>.
\<close>

theorem check_safety_park:
  "check_safety (Some ''park'') e s = Inr (True, s)
   \<and> (ev \<noteq> Some ''park'' \<longrightarrow> check_safety ev e s = is_safe e s)"
  by (auto simp: check_safety_def split: option.splits)

theorem check_safety_park_witness:
  "check_safety (Some ''park'') (example_env\<lparr>weather_is_safe := Inr False\<rparr>) example_pocs
     = Inr (True, example_pocs)
   \<and> check_safety (Some ''schedule'') (example_env\<lparr>weather_is_safe := Inr False\<rparr>) example_pocs
     = Inr (False, emit (Called ''park'') example_pocs)
   \<and> check_safety None (example_env\<lparr>weather_is_safe := Inr False\<rparr>) example_pocs
     = Inr (False, emit (Called ''park'') example_pocs)"
  using check_safety_park [of "example_env\<lparr>weather_is_safe := Inr False\<rparr>" example_pocs
          "Some ''schedule''"]
        check_safety_park [of "example_env\<lparr>weather_is_safe := Inr False\<rparr>" example_pocs None]
        unsafe_example
  by simp

subsection \<open>The wait engine and the delayed dispatcher\<close>

text \<open>
  C3, as stated, fails: for a wait that completed, \<open>goto_state\<close> calls the trigger itself,
  at once, where \<open>goto\<close> would hand it to the event loop with the settle delay.
\<close>

theorem goto_state_calls_at_once_counterexample:
  "goto_state ''track'' (FDone True) example_pocs = Inr (emit (Called ''track'') example_pocs)
   \<and> goto (Name ''track'') None example_pocs
       = Inr (emit (CallLater 1 (Bound ''track'')) example_pocs)
   \<and> goto_state ''track'' (FDone True) example_pocs \<noteq> goto (Name ''track'') None example_pocs"
  by (simp add: goto_state_def goto_def cancelled_def call_method_def emit_def example_pocs_def)

text \<open>
  C3, amended. For a future that is not cancelled, the completion callback calls the target
  trigger directly and at once, with no delay and not through \<open>goto\<close> (it raises
  \<open>AttributeError\<close> when the object has no such trigger); for a cancelled future it calls
  no trigger and schedules nothing.
\<close>

theorem goto_state_calls_at_once:
  "(\<not> cancelled f \<and> st \<in> set (attrs s) \<longrightarrow> goto_state st f s = Inr (emit (Called st) s))
   \<and> (\<not> cancelled f \<and> st \<notin> set (attrs s) \<longrightarrow> goto_state st f s = Inl (AttributeError, s))
   \<and> (cancelled f \<longrightarrow> goto_state st f s = Inl (CancelledError, s))"
  by (simp add: goto_state_def call_method_def)

theorem goto_state_calls_at_once_witness:
  "goto_state ''track'' (FDone True) example_pocs = Inr (emit (Called ''track'') example_pocs)
   \<and> goto_state ''fly'' (FDone True) example_pocs = Inl (AttributeError, example_pocs)
   \<and> goto_state ''track'' (FCancelled :: bool future) example_pocs
       = Inl (CancelledError, example_pocs)"
  using goto_state_calls_at_once [of "FDone True" "''track''" example_pocs]
        goto_state_calls_at_once [of "FDone True" "''fly''" example_pocs]
        goto_state_calls_at_once [of "FCancelled :: bool future" "''track''" example_pocs]
  by (simp add: cancelled_def example_pocs_def)

text \<open>
  C5. The claim is that the call with an empty list of paths fails at once. The code does
  not: with the loop running the call registers the wait and returns normally, so the
  \<^verbatim>\<open>except\<close> branches written for a failing wait (the one of \<open>wait_until_files_exist\<close>
  and, in the observing handler, the one that goes to \<open>park\<close>) never run, and an exposure
  that produced no file leaves the observing handler with only the wait registered. The
  assertion fails later, on the first step of the coroutine, whatever the file system
  holds: before any existence check and with no sleep. The future is then never resolved:
  the wait dispatches no transition and leaves the object as it is.
\<close>

theorem wait_until_files_exist_empty:
  "file_exists [] checks = (Raised AssertionError, 0)
   \<and> file_wait transition [] checks s = Inr s
   \<and> wait_until_files_exist [] transition s =
       Inr (if loop_running s then emit (Wait (FileExists []) transition) s else s)
   \<and> (observe e = Inr [] \<longrightarrow>
        on_enter_observing e s =
          Inr (if loop_running s then emit (Wait (FileExists []) ''analyze'') s else s))"
  by (simp add: file_exists_def file_wait_def wait_until_files_exist_def on_enter_observing_def)

theorem wait_until_files_exist_empty_witness:
  "file_exists [] [\<lambda>f. True] = (Raised AssertionError, 0)
   \<and> file_wait ''analyze'' [] [\<lambda>f. True] (emit (Wait (FileExists []) ''analyze'') example_pocs)
       = Inr (emit (Wait (FileExists []) ''analyze'') example_pocs)
   \<and> wait_until_files_exist [] ''analyze'' example_pocs
       = Inr (emit (Wait (FileExists []) ''analyze'') example_pocs)
   \<and> on_enter_observing (example_env\<lparr>observe := Inr []\<rparr>) example_pocs
       = Inr (emit (Wait (FileExists []) ''analyze'') example_pocs)"
  using wait_until_files_exist_empty
          [of "[\<lambda>f. True]" "''analyze''" "emit (Wait (FileExists []) ''analyze'') example_pocs"
              "example_env\<lparr>observe := Inr []\<rparr>"]
        wait_until_files_exist_empty
          [of "[\<lambda>f. True]" "''analyze''" example_pocs "example_env\<lparr>observe := Inr []\<rparr>"]
  by (simp add: example_pocs_def emit_def)

text \<open>
  C10. When the event loop is not running, \<open>goto\<close>, \<open>wait_until\<close>, \<open>wait_until_mount\<close>,
  \<open>wait_until_files_exist\<close> and \<open>wait_until_safe\<close> return normally and leave the object,
  and with it the list of scheduled callbacks and dispatched transitions, exactly as it was.
\<close>

theorem loop_not_running_frame:
  assumes "\<not> loop_running s"
  shows "goto m a s = Inr s
       \<and> wait_until c t s = Inr s
       \<and> wait_until_mount p t s = Inr s
       \<and> wait_until_files_exist fs t s = Inr s
       \<and> wait_until_safe d s = Inr s"
  using assms
  by (simp add: goto_def wait_until_def wait_until_mount_def wait_until_files_exist_def
      wait_until_safe_def)

theorem loop_not_running_frame_witness:
  "goto (Name ''park'') None (example_pocs\<lparr>loop_running := False\<rparr>)
     = Inr (example_pocs\<lparr>loop_running := False\<rparr>)
   \<and> wait_until (AtPosition ''is_home'') ''schedule'' (example_pocs\<lparr>loop_running := False\<rparr>)
     = Inr (example_pocs\<lparr>loop_running := False\<rparr>)
   \<and> wait_until_mount ''is_home'' ''schedule'' (example_pocs\<lparr>loop_running := False\<rparr>)
     = Inr (example_pocs\<lparr>loop_running := False\<rparr>)
   \<and> wait_until_files_exist [''img_001.cr2''] ''schedule'' (example_pocs\<lparr>loop_running := False\<rparr>)
     = Inr (example_pocs\<lparr>loop_running := False\<rparr>)
   \<and> wait_until_safe None (example_pocs\<lparr>loop_running := False\<rparr>)
     = Inr (example_pocs\<lparr>loop_running := False\<rparr>)"
proof -
  have h: "\<not> loop_running (example_pocs\<lparr>loop_running := False\<rparr>)" by simp
  from loop_not_running_frame [OF h, of "Name ''park''" None "AtPosition ''is_home''"
      "''schedule''" "''is_home''" "[''img_001.cr2'']" None]
  show ?thesis by simp
qed

subsection \<open>The scheduling handler\<close>

text \<open>
  C6. With the loop running and both triggers attached, the scheduling handler hands
  exactly one call to the event loop: \<open>park\<close> when the scheduler returns no target, when
  the target is reported not up, and when the mount rejects the coordinates;
  \<open>slew_to_target\<close> when the target is up and the mount accepts them.
\<close>

theorem scheduling_next_transition:
  assumes "loop_running s" and "''park'' \<in> set (attrs s)"
    and "''slew_to_target'' \<in> set (attrs s)"
  shows "(get_target e = Inr None \<longrightarrow>
            on_enter_scheduling e s = Inr (emit (CallLater (state_delay s) (Bound ''park'')) s))
       \<and> (get_target e = Inr (Some t) \<and> target_is_up e t = Inr False \<longrightarrow>
            on_enter_scheduling e s = Inr (emit (CallLater (state_delay s) (Bound ''park'')) s))
       \<and> (get_target e = Inr (Some t) \<and> target_is_up e t = Inr True
            \<and> set_target_coordinates e t = Inr False \<longrightarrow>
            on_enter_scheduling e s = Inr (emit (CallLater (state_delay s) (Bound ''park'')) s))
       \<and> (get_target e = Inr (Some t) \<and> target_is_up e t = Inr True
            \<and> set_target_coordinates e t = Inr True \<longrightarrow>
            on_enter_scheduling e s =
              Inr (emit (CallLater (state_delay s) (Bound ''slew_to_target'')) s))"
  using assms
  by (simp add: on_enter_scheduling_def scheduling_next_state_def goto_running)

theorem scheduling_next_transition_witness:
  "on_enter_scheduling (example_env\<lparr>get_target := Inr None\<rparr>) example_pocs
     = Inr (emit (CallLater 1 (Bound ''park'')) example_pocs)
   \<and> on_enter_scheduling (example_env\<lparr>target_is_up := \<lambda>t. Inr False\<rparr>) example_pocs
     = Inr (emit (CallLater 1 (Bound ''park'')) example_pocs)
   \<and> on_enter_scheduling (example_env\<lparr>set_target_coordinates := \<lambda>t. Inr False\<rparr>) example_pocs
     = Inr (emit (CallLater 1 (Bound ''park'')) example_pocs)
   \<and> on_enter_scheduling example_env example_pocs
     = Inr (emit (CallLater 1 (Bound ''slew_to_target'')) example_pocs)"
  using scheduling_next_transition [OF example_pocs_facts(1-3),
          of "example_env\<lparr>get_target := Inr None\<rparr>" example_target]
    scheduling_next_transition [OF example_pocs_facts(1-3),
          of "example_env\<lparr>target_is_up := \<lambda>t. Inr False\<rparr>" example_target]
    scheduling_next_transition [OF example_pocs_facts(1-3),
          of "example_env\<lparr>set_target_coordinates := \<lambda>t. Inr False\<rparr>" example_target]
    scheduling_next_transition [OF example_pocs_facts(1-3), of example_env example_target]
  by (simp add: example_env_def example_pocs_facts(7))

subsection \<open>The analyzing handler\<close>

text \<open>
  C7. On the example night the correlation gives 3 pixels in right ascension and - 2 in
  declination. The offset the handler stores has both angular offsets as pixel scale times
  pixel shift, but a single \<open>ms_offset\<close>: the one computed from the declination. The value
  computed from the right ascension was stored under the same key and overwritten, and it
  differs from the one that is left.
\<close>

theorem analyzing_ms_offset_overwritten:
  "on_enter_analyzing example_env example_pocs =
     Inr (emit (CallLater 1 (Bound ''adjust_tracking''))
       (example_pocs\<lparr>offset_info :=
          [(''delta_ra'', quant 3 pixel),
           (''delta_dec'', quant (- 2) pixel),
           (''delta_ra_as'', qmul default_pixel_scale (quant 3 pixel)),
           (''ms_offset'',
              rescale ms (qmul (qmul default_pixel_scale (quant (- 2) pixel)) sidereal_rate)),
           (''delta_dec_as'', qmul default_pixel_scale (quant (- 2) pixel))]\<rparr>))
   \<and> rescale ms (qmul (qmul default_pixel_scale (quant 3 pixel)) sidereal_rate)
       \<noteq> rescale ms (qmul (qmul default_pixel_scale (quant (- 2) pixel)) sidereal_rate)"
  apply (rule conjI)
   apply (simp add: on_enter_analyzing_def analyzing_body_def after_process_images_def
      tracking_error_def correlate_def example_env_def example_target_def example_observation_def
      example_image_def image_path_def solved_or_empty_def to_unit_def same_dims_def
      qmul_def qdiv_def quant_def umul_def udiv_def default_pixel_scale_def sidereal_rate_def
      rescale_def pixel_def arcsec_def ms_def minute_def hour_def deg_def goto_def
      example_pocs_def Let_def)
  apply (simp add: qmul_def qdiv_def quant_def umul_def udiv_def default_pixel_scale_def
      sidereal_rate_def rescale_def pixel_def arcsec_def ms_def minute_def hour_def deg_def)
  done

text \<open>
  C8, as stated, fails: the target has a reference image, the image data cannot be read and
  the plate solve fails its assertion; the handler then replaces a pending offset by the
  empty dictionary.
\<close>

theorem analyzing_offset_empty_counterexample:
  "reference_image example_target = Some (example_image ''ref_000.fits'')
   \<and> current_target (example_env\<lparr>read_image_data := \<lambda>p. Inl (External ''unreadable'')\<rparr>)
       = Some example_target
   \<and> on_enter_analyzing (example_env\<lparr>read_image_data := \<lambda>p. Inl (External ''unreadable'')\<rparr>)
       (example_pocs\<lparr>offset_info := [(''ms_offset'', quant 5 ms)]\<rparr>)
     = Inr (emit (CallLater 1 (Bound ''adjust_tracking'')) (example_pocs\<lparr>offset_info := []\<rparr>))"
  by (simp add: on_enter_analyzing_def analyzing_body_def after_process_images_def
      tracking_error_def correlate_def example_env_def example_target_def example_observation_def
      example_image_def image_path_def solved_or_empty_def goto_def example_pocs_def Let_def)

text \<open>
  C8, amended. Once the current observation has been read, and with the loop running and
  the triggers attached, the handler hands exactly one call to the event loop: \<open>schedule\<close>
  when the observation is complete, \<open>adjust_tracking\<close> when it is not; it changes nothing
  of the object but the pending offset. When there is a reference image and the
  correlation succeeds, the offset written is the one of the correlation and is not empty:
  its keys are \<open>delta_ra\<close>, \<open>delta_dec\<close>, \<open>delta_ra_as\<close>, \<open>ms_offset\<close>, \<open>delta_dec_as\<close>.
  When the correlation fails and the plate solve fails its assertion, the offset written is
  what the correlation had stored before it failed.
\<close>

theorem analyzing_next_transition:
  assumes "current_target e = Some tgt" and "current_visit tgt = Some obs"
    and "loop_running s" and "''schedule'' \<in> set (attrs s)"
    and "''adjust_tracking'' \<in> set (attrs s)"
  shows "\<exists>written.
      on_enter_analyzing e s =
        Inr (emit (CallLater (state_delay s)
                     (Bound (if complete obs then ''schedule'' else ''adjust_tracking'')))
               (s\<lparr>offset_info := written\<rparr>))
      \<and> (\<forall>r ex oi. fits_headers e tgt = None \<and> reference_image tgt = Some r
            \<and> current_exposure obs = Some ex \<and> images ex \<noteq> []
            \<and> correlate e r (last (images ex)) = (None, oi)
          \<longrightarrow> written = oi \<and> oi \<noteq> []
              \<and> map fst oi =
                  [''delta_ra'', ''delta_dec'', ''delta_ra_as'', ''ms_offset'', ''delta_dec_as''])
      \<and> (\<forall>r ex x part. fits_headers e tgt = None \<and> reference_image tgt = Some r
            \<and> current_exposure obs = Some ex \<and> images ex \<noteq> []
            \<and> correlate e r (last (images ex)) = (Some x, part)
            \<and> solve_offset e (solved_or_empty r) (solved_or_empty (last (images ex)))
                = Inl AssertionError
          \<longrightarrow> written = part)"
proof -
  let ?w = "offset_info (snd (analyzing_body e s))"
  have body: "analyzing_body e s = (Some (Some obs), s\<lparr>offset_info := ?w\<rparr>)"
    using assms(1,2) by (rule analyzing_body_bound)
  have run: "on_enter_analyzing e s =
        Inr (emit (CallLater (state_delay s)
                     (Bound (if complete obs then ''schedule'' else ''adjust_tracking'')))
               (s\<lparr>offset_info := ?w\<rparr>))"
    unfolding on_enter_analyzing_def using assms(3-5)
    by (subst body) (simp add: goto_running)
  have ok: "?w = oi \<and> oi \<noteq> []
      \<and> map fst oi = [''delta_ra'', ''delta_dec'', ''delta_ra_as'', ''ms_offset'', ''delta_dec_as'']"
    if "fits_headers e tgt = None" "reference_image tgt = Some r" "current_exposure obs = Some ex"
       "images ex \<noteq> []" "correlate e r (last (images ex)) = (None, oi)" for r ex oi
    using analyzing_writes_correlation [OF assms(1,2) that] correlate_success_keys [OF that(5)]
    by auto
  have ko: "?w = part"
    if "fits_headers e tgt = None" "reference_image tgt = Some r" "current_exposure obs = Some ex"
       "images ex \<noteq> []" "correlate e r (last (images ex)) = (Some x, part)"
       "solve_offset e (solved_or_empty r) (solved_or_empty (last (images ex))) = Inl AssertionError"
    for r ex x part
    using analyzing_keeps_failed_correlation [OF assms(1,2) that] .
  from run ok ko show ?thesis by blast
qed

theorem analyzing_next_transition_witness:
  "\<exists>written.
     on_enter_analyzing example_env example_pocs =
       Inr (emit (CallLater 1 (Bound ''adjust_tracking'')) (example_pocs\<lparr>offset_info := written\<rparr>))
     \<and> written \<noteq> []
     \<and> map fst written = [''delta_ra'', ''delta_dec'', ''delta_ra_as'', ''ms_offset'', ''delta_dec_as'']"
proof -
  have t: "current_target example_env = Some example_target"
    by (simp add: example_env_def)
  have v: "current_visit example_target = Some example_observation"
    by (simp add: example_target_def)
  from analyzing_next_transition [OF t v example_pocs_facts(1,4,5)]
  obtain written where
    run: "on_enter_analyzing example_env example_pocs =
        Inr (emit (CallLater (state_delay example_pocs)
                     (Bound (if complete example_observation then ''schedule''
                             else ''adjust_tracking'')))
               (example_pocs\<lparr>offset_info := written\<rparr>))"
    and ok: "\<And>r ex oi. fits_headers example_env example_target = None
            \<and> reference_image example_target = Some r
            \<and> current_exposure example_observation = Some ex \<and> images ex \<noteq> []
            \<and> correlate example_env r (last (images ex)) = (None, oi)
          \<Longrightarrow> written = oi \<and> oi \<noteq> []
              \<and> map fst oi =
                  [''delta_ra'', ''delta_dec'', ''delta_ra_as'', ''ms_offset'', ''delta_dec_as'']"
    by blast
  have keys: "written \<noteq> [] \<and> map fst written =
      [''delta_ra'', ''delta_dec'', ''delta_ra_as'', ''ms_offset'', ''delta_dec_as'']"
    using ok [of "example_image ''ref_000.fits''" "\<lparr>images = [example_image ''img_001.fits'']\<rparr>"]
      example_correlate
    by (simp add: example_env_def example_target_def example_observation_def)
  from run have "on_enter_analyzing example_env example_pocs =
       Inr (emit (CallLater 1 (Bound ''adjust_tracking'')) (example_pocs\<lparr>offset_info := written\<rparr>))"
    by (simp add: example_pocs_facts(7) example_observation_def)
  with keys show ?thesis by (intro exI [of _ written] conjI) simp_all
qed

subsection \<open>The tracking handler\<close>

text \<open>
  C9, as stated, fails: a pending correction of - 5 ms is present in the offset, and the
  handler neither sends it to the mount nor resets the offset.
\<close>

theorem tracking_negative_offset_counterexample:
  "map_of [(''ms_offset'', quant (- 5) ms)] ''ms_offset'' = Some (quant (- 5) ms)
   \<and> on_enter_tracking example_env (example_pocs\<lparr>offset_info := [(''ms_offset'', quant (- 5) ms)]\<rparr>)
     = Inr (emit (CallLater 1 (Bound ''observe''))
         (example_pocs\<lparr>offset_info := [(''ms_offset'', quant (- 5) ms)]\<rparr>))"
  by (simp add: on_enter_tracking_def goto_def example_pocs_def quant_def)

text \<open>
  C9, amended. When the offset holds an \<open>ms_offset\<close> that is strictly positive (and a
  time, which the mount accepts), the handler sends it, increased by 250 ms, to the mount
  and resets the offset to empty, and only then goes to \<open>observe\<close>. When there is no
  \<open>ms_offset\<close>, or it is zero or negative, the handler goes to \<open>observe\<close> with the mount
  and the offset untouched. Whenever the handler returns with the loop running, the last
  thing it did was to hand \<open>observe\<close> to the event loop.
\<close>

theorem tracking_applies_positive_offset:
  "(map_of (offset_info s) ''ms_offset'' = Some q \<and> 0 < qvalue q
      \<and> qadd q (quant 250 ms) = Inr m \<and> serial_query e ''move_ms_east'' (qvalue m) = None
    \<longrightarrow> on_enter_tracking e s =
          goto (Name ''observe'') None
            ((emit (SerialQuery ''move_ms_east'' (qvalue m)) s)\<lparr>offset_info := []\<rparr>))
   \<and> (map_of (offset_info s) ''ms_offset'' = None
    \<longrightarrow> on_enter_tracking e s = goto (Name ''observe'') None s)
   \<and> (map_of (offset_info s) ''ms_offset'' = Some q \<and> qvalue q \<le> 0
    \<longrightarrow> on_enter_tracking e s = goto (Name ''observe'') None s)
   \<and> (loop_running s \<and> on_enter_tracking e s = Inr s'
    \<longrightarrow> last (trace s') = CallLater (state_delay s) (Bound ''observe''))"
  by (auto simp: on_enter_tracking_def goto_def emit_def
      split: option.splits sum.splits if_splits callee.splits)

theorem tracking_applies_positive_offset_witness:
  "on_enter_tracking example_env (example_pocs\<lparr>offset_info := [(''ms_offset'', quant 5 ms)]\<rparr>)
     = Inr (example_pocs\<lparr>offset_info := [],
              trace := [SerialQuery ''move_ms_east'' 255, CallLater 1 (Bound ''observe'')]\<rparr>)
   \<and> on_enter_tracking example_env example_pocs
     = Inr (emit (CallLater 1 (Bound ''observe'')) example_pocs)
   \<and> on_enter_tracking example_env (example_pocs\<lparr>offset_info := [(''ms_offset'', quant 0 ms)]\<rparr>)
     = Inr (emit (CallLater 1 (Bound ''observe''))
         (example_pocs\<lparr>offset_info := [(''ms_offset'', quant 0 ms)]\<rparr>))"
  using tracking_applies_positive_offset
          [of "example_pocs\<lparr>offset_info := [(''ms_offset'', quant 5 ms)]\<rparr>" "quant 5 ms"
              "quant 255 ms" example_env]
        tracking_applies_positive_offset [of example_pocs "quant 0 ms" "quant 0 ms" example_env]
        tracking_applies_positive_offset
          [of "example_pocs\<lparr>offset_info := [(''ms_offset'', quant 0 ms)]\<rparr>" "quant 0 ms"
              "quant 0 ms" example_env]
  by (simp add: example_pocs_def example_env_def quant_def qadd_def same_dims_def rescale_def
      ms_def goto_def emit_def)

subsection \<open>Failures inside the handlers\<close>

text \<open>
  C4, as stated, fails: the tracking handler has no \<^verbatim>\<open>try\<close>, and an exception of the
  mount's \<open>serial_query\<close> leaves the handler.
\<close>

theorem tracking_propagates_counterexample:
  "on_enter_tracking (example_env\<lparr>serial_query := \<lambda>c v. Some (External ''mount timeout'')\<rparr>)
       (example_pocs\<lparr>offset_info := [(''ms_offset'', quant 5 ms)]\<rparr>)
     = Inl (External ''mount timeout'', example_pocs\<lparr>offset_info := [(''ms_offset'', quant 5 ms)]\<rparr>)"
  by (simp add: on_enter_tracking_def example_env_def quant_def qadd_def same_dims_def
      rescale_def ms_def)

text \<open>
  C4, amended. With the \<open>park\<close> trigger attached, the handlers of \<open>ready\<close>, \<open>slewing\<close>,
  \<open>observing\<close>, \<open>parking\<close> and \<open>sleeping\<close> never raise, whatever the collaborators do: a
  failed slew is turned into \<open>goto park\<close>, a failed exposure and a failed park command end
  the handler with nothing dispatched. In the analyzing handler, once the current
  observation has been read, whatever fails inside its \<^verbatim>\<open>try\<close> (the construction of
  the headers, the processing of the images, the offset analysis) is swallowed: the
  handler changes at most the pending offset and goes on to the transition chosen by the
  observation's \<open>complete\<close> flag; when the headers fail the object is untouched; with the
  two triggers attached the handler does not raise. A collaborator call outside every
  \<^verbatim>\<open>try\<close> is not caught: an exception of \<open>serial_query\<close> in tracking, of \<open>target_is_up\<close>
  and of \<open>set_target_coordinates\<close> in scheduling, and of the darkness test and of the
  weather station in parked leaves the handler, with the object as it was.
\<close>

theorem handlers_catch_inside_try:
  assumes "''park'' \<in> set (attrs s)"
  shows "\<not> isl (on_enter_ready e s) \<and> \<not> isl (on_enter_slewing e s)
       \<and> \<not> isl (on_enter_observing e s) \<and> \<not> isl (on_enter_parking e s)
       \<and> \<not> isl (on_enter_sleeping e s)
       \<and> (slew_to_target e = Some x \<longrightarrow> on_enter_slewing e s = goto (Name ''park'') None s)
       \<and> (observe e = Inl x \<longrightarrow> on_enter_observing e s = Inr s)
       \<and> (home_and_park e = Some x \<longrightarrow> on_enter_parking e s = Inr s)
       \<and> (current_target e = Some tgt \<and> current_visit tgt = Some obs
          \<longrightarrow> (\<exists>written. on_enter_analyzing e s =
                 goto (Name (if complete obs then ''schedule'' else ''adjust_tracking'')) None
                   (s\<lparr>offset_info := written\<rparr>)))
       \<and> (current_target e = Some tgt \<and> current_visit tgt = Some obs
            \<and> fits_headers e tgt = Some x
          \<longrightarrow> on_enter_analyzing e s =
                 goto (Name (if complete obs then ''schedule'' else ''adjust_tracking'')) None s)
       \<and> (current_target e = Some tgt \<and> current_visit tgt = Some obs
            \<and> ''schedule'' \<in> set (attrs s) \<and> ''adjust_tracking'' \<in> set (attrs s)
          \<longrightarrow> \<not> isl (on_enter_analyzing e s))
       \<and> (map_of (offset_info s) ''ms_offset'' = Some q \<and> 0 < qvalue q
            \<and> qadd q (quant 250 ms) = Inr m \<and> serial_query e ''move_ms_east'' (qvalue m) = Some x
          \<longrightarrow> on_enter_tracking e s = Inl (x, s))
       \<and> (get_target e = Inr (Some t) \<and> target_is_up e t = Inl x
          \<longrightarrow> on_enter_scheduling e s = Inl (x, s))
       \<and> (get_target e = Inr (Some t) \<and> target_is_up e t = Inr True
            \<and> set_target_coordinates e t = Inl x
          \<longrightarrow> on_enter_scheduling e s = Inl (x, s))
       \<and> (is_dark e = Inl x \<longrightarrow> on_enter_parked e s = Inl (x, s))
       \<and> (is_dark e = Inr True \<and> weather_is_safe e = Inl x
          \<longrightarrow> on_enter_parked e s = Inl (x, s))"
proof -
  have ready: "\<not> isl (on_enter_ready e s)"
    by (simp add: on_enter_ready_def wait_until_mount_def wait_until_def)
  have slewing: "\<not> isl (on_enter_slewing e s)"
    using assms
    by (simp add: on_enter_slewing_def wait_until_mount_def wait_until_def goto_def
        split: option.splits)
  have observing: "\<not> isl (on_enter_observing e s)"
    by (simp add: on_enter_observing_def wait_until_files_exist_def split: sum.splits)
  have parking: "\<not> isl (on_enter_parking e s)"
    by (simp add: on_enter_parking_def wait_until_mount_def wait_until_def split: option.splits)
  have sleeping: "\<not> isl (on_enter_sleeping e s)"
    by (simp add: on_enter_sleeping_def)
  have slew_park: "slew_to_target e = Some x \<longrightarrow> on_enter_slewing e s = goto (Name ''park'') None s"
    by (simp add: on_enter_slewing_def)
  have observe_stay: "observe e = Inl x \<longrightarrow> on_enter_observing e s = Inr s"
    by (simp add: on_enter_observing_def)
  have park_stay: "home_and_park e = Some x \<longrightarrow> on_enter_parking e s = Inr s"
    by (simp add: on_enter_parking_def)
  have goes_on: "on_enter_analyzing e s =
        goto (Name (if complete obs then ''schedule'' else ''adjust_tracking'')) None
          (s\<lparr>offset_info := offset_info (snd (analyzing_body e s))\<rparr>)"
    if "current_target e = Some tgt" "current_visit tgt = Some obs"
    unfolding on_enter_analyzing_def
    by (subst analyzing_body_bound [OF that]) simp
  have swallowed: "current_target e = Some tgt \<and> current_visit tgt = Some obs
          \<longrightarrow> (\<exists>written. on_enter_analyzing e s =
                 goto (Name (if complete obs then ''schedule'' else ''adjust_tracking'')) None
                   (s\<lparr>offset_info := written\<rparr>))"
    using goes_on by (intro impI exI [of _ "offset_info (snd (analyzing_body e s))"]) simp
  have headers: "current_target e = Some tgt \<and> current_visit tgt = Some obs
            \<and> fits_headers e tgt = Some x
          \<longrightarrow> on_enter_analyzing e s =
                 goto (Name (if complete obs then ''schedule'' else ''adjust_tracking'')) None s"
    by (simp add: on_enter_analyzing_def analyzing_body_def)
  have analyzing: "current_target e = Some tgt \<and> current_visit tgt = Some obs
            \<and> ''schedule'' \<in> set (attrs s) \<and> ''adjust_tracking'' \<in> set (attrs s)
          \<longrightarrow> \<not> isl (on_enter_analyzing e s)"
    using goes_on by (simp add: goto_def)
  have tracking: "map_of (offset_info s) ''ms_offset'' = Some q \<and> 0 < qvalue q
            \<and> qadd q (quant 250 ms) = Inr m \<and> serial_query e ''move_ms_east'' (qvalue m) = Some x
          \<longrightarrow> on_enter_tracking e s = Inl (x, s)"
    by (simp add: on_enter_tracking_def)
  have visible: "get_target e = Inr (Some t) \<and> target_is_up e t = Inl x
          \<longrightarrow> on_enter_scheduling e s = Inl (x, s)"
    by (simp add: on_enter_scheduling_def scheduling_next_state_def)
  have coords: "get_target e = Inr (Some t) \<and> target_is_up e t = Inr True
            \<and> set_target_coordinates e t = Inl x
          \<longrightarrow> on_enter_scheduling e s = Inl (x, s)"
    by (simp add: on_enter_scheduling_def scheduling_next_state_def)
  have dark: "is_dark e = Inl x \<longrightarrow> on_enter_parked e s = Inl (x, s)"
    by (simp add: on_enter_parked_def parked_next_state_def)
  have weather: "is_dark e = Inr True \<and> weather_is_safe e = Inl x
          \<longrightarrow> on_enter_parked e s = Inl (x, s)"
    by (simp add: on_enter_parked_def parked_next_state_def)
  show ?thesis
    by (intro conjI ready slewing observing parking sleeping slew_park observe_stay park_stay
        swallowed headers analyzing tracking visible coords dark weather)
qed

text \<open>
  The theorem at work. On the failing night: the slew goes to \<open>park\<close>; the exposure and the
  park command end their handlers with nothing dispatched; the analysis, with the image
  conversion and the reading of image data raising and the plate solve failing its
  assertion, still hands \<open>adjust_tracking\<close> to the event loop (and replaces the pending
  offset by the empty one); the tracking handler, the scheduling handler and the parked
  handler raise. On the clear night: failing headers leave the object untouched and the
  analysis goes on to \<open>adjust_tracking\<close>; a raising \<open>set_target_coordinates\<close> leaves the
  scheduling handler and a raising weather station leaves the parked handler.
\<close>

theorem handlers_catch_inside_try_witness:
  "on_enter_slewing failing_env (example_pocs\<lparr>offset_info := [(''ms_offset'', quant 5 ms)]\<rparr>)
     = Inr (emit (CallLater 1 (Bound ''park''))
         (example_pocs\<lparr>offset_info := [(''ms_offset'', quant 5 ms)]\<rparr>))
   \<and> on_enter_observing failing_env (example_pocs\<lparr>offset_info := [(''ms_offset'', quant 5 ms)]\<rparr>)
     = Inr (example_pocs\<lparr>offset_info := [(''ms_offset'', quant 5 ms)]\<rparr>)
   \<and> on_enter_parking failing_env (example_pocs\<lparr>offset_info := [(''ms_offset'', quant 5 ms)]\<rparr>)
     = Inr (example_pocs\<lparr>offset_info := [(''ms_offset'', quant 5 ms)]\<rparr>)
   \<and> on_enter_analyzing failing_env (example_pocs\<lparr>offset_info := [(''ms_offset'', quant 5 ms)]\<rparr>)
     = Inr (emit (CallLater 1 (Bound ''adjust_tracking'')) (example_pocs\<lparr>offset_info := []\<rparr>))
   \<and> on_enter_analyzing (example_env\<lparr>fits_headers := \<lambda>t. Some (External ''no site'')\<rparr>)
       (example_pocs\<lparr>offset_info := [(''ms_offset'', quant 5 ms)]\<rparr>)
     = Inr (emit (CallLater 1 (Bound ''adjust_tracking''))
         (example_pocs\<lparr>offset_info := [(''ms_offset'', quant 5 ms)]\<rparr>))
   \<and> on_enter_tracking failing_env (example_pocs\<lparr>offset_info := [(''ms_offset'', quant 5 ms)]\<rparr>)
     = Inl (External ''mount timeout'', example_pocs\<lparr>offset_info := [(''ms_offset'', quant 5 ms)]\<rparr>)
   \<and> on_enter_scheduling failing_env (example_pocs\<lparr>offset_info := [(''ms_offset'', quant 5 ms)]\<rparr>)
     = Inl (External ''no ephemeris'', example_pocs\<lparr>offset_info := [(''ms_offset'', quant 5 ms)]\<rparr>)
   \<and> on_enter_scheduling (example_env\<lparr>set_target_coordinates := \<lambda>t. Inl (External ''mount timeout'')\<rparr>)
       (example_pocs\<lparr>offset_info := [(''ms_offset'', quant 5 ms)]\<rparr>)
     = Inl (External ''mount timeout'', example_pocs\<lparr>offset_info := [(''ms_offset'', quant 5 ms)]\<rparr>)
   \<and> on_enter_parked failing_env (example_pocs\<lparr>offset_info := [(''ms_offset'', quant 5 ms)]\<rparr>)
     = Inl (External ''no ephemeris'', example_pocs\<lparr>offset_info := [(''ms_offset'', quant 5 ms)]\<rparr>)
   \<and> on_enter_parked (example_env\<lparr>weather_is_safe := Inl (External ''station offline'')\<rparr>)
       (example_pocs\<lparr>offset_info := [(''ms_offset'', quant 5 ms)]\<rparr>)
     = Inl (External ''station offline'', example_pocs\<lparr>offset_info := [(''ms_offset'', quant 5 ms)]\<rparr>)"
proof -
  let ?s = "example_pocs\<lparr>offset_info := [(''ms_offset'', quant 5 ms)]\<rparr>"
  let ?headers = "example_env\<lparr>fits_headers := \<lambda>t. Some (External ''no site'')\<rparr>"
  let ?coords = "example_env\<lparr>set_target_coordinates := \<lambda>t. Inl (External ''mount timeout'')\<rparr>"
  let ?station = "example_env\<lparr>weather_is_safe := Inl (External ''station offline'')\<rparr>"
  have park: "''park'' \<in> set (attrs ?s)"
    by (simp add: example_pocs_def)
  have conversion: "process_images failing_env \<lparr>images = [example_image ''img_001.fits'']\<rparr>
      = Some (External ''conversion failed'')"
    and unreadable: "correlate failing_env (example_image ''ref_000.fits'')
        (example_image ''img_001.fits'') = (Some (External ''unreadable''), [])"
    by (simp_all add: failing_env_def example_env_def correlate_def Let_def)
  from handlers_catch_inside_try [OF park, of failing_env "External ''mount timeout''"
      example_target example_observation "quant 5 ms" "quant 255 ms" example_target]
  have a: "on_enter_slewing failing_env ?s = goto (Name ''park'') None ?s"
    and c: "on_enter_parking failing_env ?s = Inr ?s"
    and f: "on_enter_tracking failing_env ?s = Inl (External ''mount timeout'', ?s)"
    and d: "\<exists>written. on_enter_analyzing failing_env ?s =
        goto (Name ''adjust_tracking'') None (?s\<lparr>offset_info := written\<rparr>)"
    by (simp_all add: failing_env_def example_env_def example_target_def example_observation_def
        example_pocs_def quant_def qadd_def same_dims_def rescale_def ms_def)
  from handlers_catch_inside_try [OF park, of failing_env "External ''camera busy''"
      example_target example_observation "quant 5 ms" "quant 255 ms" example_target]
  have b: "on_enter_observing failing_env ?s = Inr ?s"
    by (simp add: failing_env_def example_env_def)
  from handlers_catch_inside_try [OF park, of failing_env "External ''no ephemeris''"
      example_target example_observation "quant 5 ms" "quant 255 ms" example_target]
  have g: "on_enter_scheduling failing_env ?s = Inl (External ''no ephemeris'', ?s)"
    and h: "on_enter_parked failing_env ?s = Inl (External ''no ephemeris'', ?s)"
    by (simp_all add: failing_env_def example_env_def is_dark_def)
  from handlers_catch_inside_try [OF park, of ?headers "External ''no site''"
      example_target example_observation "quant 5 ms" "quant 255 ms" example_target]
  have i: "on_enter_analyzing ?headers ?s = goto (Name ''adjust_tracking'') None ?s"
    by (simp add: example_env_def example_target_def example_observation_def)
  from handlers_catch_inside_try [OF park, of ?coords "External ''mount timeout''"
      example_target example_observation "quant 5 ms" "quant 255 ms" example_target]
  have j: "on_enter_scheduling ?coords ?s = Inl (External ''mount timeout'', ?s)"
    by (simp add: example_env_def)
  from handlers_catch_inside_try [OF park, of ?station "External ''station offline''"
      example_target example_observation "quant 5 ms" "quant 255 ms" example_target]
  have k: "on_enter_parked ?station ?s = Inl (External ''station offline'', ?s)"
    by (simp add: example_env_def is_dark_def)
  from a have a': "on_enter_slewing failing_env ?s = Inr (emit (CallLater 1 (Bound ''park'')) ?s)"
    by (simp add: goto_def example_pocs_def)
  from i have i': "on_enter_analyzing ?headers ?s
      = Inr (emit (CallLater 1 (Bound ''adjust_tracking'')) ?s)"
    by (simp add: goto_def example_pocs_def)
  have written: "offset_info (snd (analyzing_body failing_env ?s)) = []"
    using conversion unreadable
    by (simp add: analyzing_body_def after_process_images_def tracking_error_def
        failing_env_def example_env_def example_target_def example_observation_def Let_def)
  from d obtain w where
    w: "on_enter_analyzing failing_env ?s = goto (Name ''adjust_tracking'') None (?s\<lparr>offset_info := w\<rparr>)"
    by (rule exE)
  have "offset_info (snd (analyzing_body failing_env ?s)) = w"
  proof -
    have t: "current_target failing_env = Some example_target"
      by (simp add: failing_env_def example_env_def)
    have v: "current_visit example_target = Some example_observation"
      by (simp add: example_target_def)
    have "on_enter_analyzing failing_env ?s =
        goto (Name ''adjust_tracking'') None
          (?s\<lparr>offset_info := offset_info (snd (analyzing_body failing_env ?s))\<rparr>)"
      unfolding on_enter_analyzing_def
      by (subst analyzing_body_bound [OF t v]) (simp add: example_observation_def)
    with w show ?thesis
      by (simp add: goto_def emit_def example_pocs_def)
  qed
  with written w have d': "on_enter_analyzing failing_env ?s
      = Inr (emit (CallLater 1 (Bound ''adjust_tracking'')) (example_pocs\<lparr>offset_info := []\<rparr>))"
    by (simp add: goto_def example_pocs_def)
  from a' b c d' i' f g j h k show ?thesis by simp
qed

end
